theory Spec2Isabelle
  imports Main "HOL-Library.Word"
begin

section \<open>Data model of Wire.hpp\<close>

text \<open>
  A socket descriptor is the \<open>int\<close> of the POSIX branch (\<open>ZT_WIRE_SOCKFD_TYPE\<close>),
  with \<open>-1\<close> as \<open>ZT_WIRE_SOCKFD_NULL\<close>. A \<open>WireSocket *\<close> handed to the caller is
  the address of a node of the \<open>std::list\<close> \<open>_socks\<close>; it is modelled as a natural
  number, \<open>0\<close> being the null pointer. The user pointer is an address as well. An
  \<open>fd_set\<close> is a set of descriptors; the bound \<open>FD_SETSIZE\<close> on the descriptors it can
  hold is not modelled.
\<close>

type_synonym fd = int
type_synonym handle = nat
type_synonym uptr = nat
type_synonym bytes = "nat list"

definition ZT_WIRE_SOCKFD_NULL :: fd where
  "ZT_WIRE_SOCKFD_NULL = - 1"

definition ZT_WIRE_SOCKFD_VALID :: "fd \<Rightarrow> bool" where
  "ZT_WIRE_SOCKFD_VALID s = (s > - 1)"

datatype family = AF_INET | AF_INET6 | AF_OTHER

record sockaddr =
  sa_family :: family
  sa_data :: bytes

datatype WireSocketType =
    ZT_WIRE_SOCKET_TCP_OUT_PENDING
  | ZT_WIRE_SOCKET_TCP_OUT_CONNECTED
  | ZT_WIRE_SOCKET_TCP_IN
  | ZT_WIRE_SOCKET_TCP_LISTEN
  | ZT_WIRE_SOCKET_RAW
  | ZT_WIRE_SOCKET_UDP

record WireSocketImpl =
  type :: WireSocketType
  sock :: fd
  uptr :: uptr
  saddr :: sockaddr

text \<open>
  The six handlers are template parameters of the class. A handler receives the handle,
  a pointer to the entry's \<open>uptr\<close> slot (so it can replace the user pointer) and the
  event's data. Its outcome is modelled as the value it leaves in the slot(s) and whether
  it left by throwing. Handlers that call back into the \<open>Wire\<close> object are outside this
  model.
\<close>

datatype hcall =
    OnDatagram handle uptr sockaddr bytes nat
  | OnTcpConnect handle uptr bool
  | OnTcpAccept handle handle uptr uptr sockaddr
  | OnTcpClose handle uptr
  | OnTcpData handle uptr bytes nat
  | OnTcpWritable handle uptr

record hres =
  raised :: bool
  uptr_out :: uptr

record hres2 =
  raised2 :: bool
  uptrL_out :: uptr
  uptrN_out :: uptr

record handlers =
  dgHandler :: "handle \<Rightarrow> uptr \<Rightarrow> sockaddr \<Rightarrow> bytes \<Rightarrow> nat \<Rightarrow> hres"
  tcpConnectHandler :: "handle \<Rightarrow> uptr \<Rightarrow> bool \<Rightarrow> hres"
  tcpAcceptHandler :: "handle \<Rightarrow> handle \<Rightarrow> uptr \<Rightarrow> uptr \<Rightarrow> sockaddr \<Rightarrow> hres2"
  tcpCloseHandler :: "handle \<Rightarrow> uptr \<Rightarrow> hres"
  tcpDataHandler :: "handle \<Rightarrow> uptr \<Rightarrow> bytes \<Rightarrow> nat \<Rightarrow> hres"
  tcpWritableHandler :: "handle \<Rightarrow> uptr \<Rightarrow> hres"

text \<open>
  System calls whose effect lies outside the object, and the handler invocations, are
  recorded in order in a ghost field \<open>trace\<close> of the state.
\<close>

datatype sockopt =
    SO_RCVBUF | SO_SNDBUF | IPV6_V6ONLY | SO_REUSEADDR | SO_BROADCAST | TCP_NODELAY

datatype syscall =
    SysSocket family fd
  | SysSetsockopt fd sockopt int
  | SysBind fd sockaddr
  | SysNonBlock fd
  | SysClose fd
  | SysSendto fd sockaddr "64 word"
  | SysSend fd "64 word"
  | SysSelect int "(nat \<times> nat) option"
  | SysRead fd
  | SysGetpeername fd
  | SysRecv fd
  | SysAccept fd
  | SysRecvfrom fd

datatype event = Sys syscall | Call hcall

record wire =
  socks :: "(handle \<times> WireSocketImpl) list"
  readfds :: "fd set"
  writefds :: "fd set"
  exceptfds :: "fd set"
  nfds :: int
  whackReceiveSocket :: fd
  whackSendSocket :: fd
  noDelay :: bool
  trace :: "event list"

text \<open>
  What the operating system and the allocator answer. \<open>new_node\<close> is the address
  \<open>push_back\<close> obtains for a list node, given the addresses of the live nodes
  (\<open>None\<close>: the allocation throws). \<open>iter_fd\<close> is the value the assignment
  \<open>sws.sock = s\<close> of \<open>poll\<close> stores, where \<open>s\<close> is the list iterator, applied to
  the address of the node \<open>s\<close> points to. The results of \<open>sendto\<close> and \<open>send\<close> are the
  64-bit \<open>ssize_t\<close> of the LP64 platforms, read with \<open>sint\<close>.
\<close>

record os =
  socket_r :: fd
  setsockopt_ok :: "sockopt \<Rightarrow> int \<Rightarrow> bool"
  bind_ok :: bool
  new_node :: "handle list \<Rightarrow> handle option"
  sendto_r :: "64 word"
  send_r :: "64 word"
  select_r :: "fd set"
  select_w :: "fd set"
  select_e :: "fd set"
  getpeername_ok :: "fd \<Rightarrow> bool"
  recv_r :: "fd \<Rightarrow> int \<times> bytes"
  accept_r :: "fd \<Rightarrow> fd \<times> sockaddr"
  recvfrom_r :: "fd \<Rightarrow> int \<times> sockaddr \<times> bytes"
  iter_fd :: "handle \<Rightarrow> fd"

text \<open>
  How a member function ends: normally, by an exception that leaves it, or in undefined
  behaviour (a pointer or iterator to no live list node is used). Each carries the state
  reached.
\<close>

datatype exn = BadAlloc | HandlerExn hcall

datatype 'a outcome = Done 'a | Threw exn 'a | Undefined 'a

subsection \<open>The list of sockets\<close>

fun idx_of :: "handle \<Rightarrow> (handle \<times> WireSocketImpl) list \<Rightarrow> nat option" where
  "idx_of h [] = None"
| "idx_of h (x # xs) =
     (if fst x = h then Some 0 else map_option Suc (idx_of h xs))"

definition upd_at :: "nat \<Rightarrow> (WireSocketImpl \<Rightarrow> WireSocketImpl) \<Rightarrow>
    (handle \<times> WireSocketImpl) list \<Rightarrow> (handle \<times> WireSocketImpl) list" where
  "upd_at i f xs = (if i < length xs then xs[i := (fst (xs ! i), f (snd (xs ! i)))] else xs)"

fun erase :: "handle \<Rightarrow> (handle \<times> WireSocketImpl) list \<Rightarrow> (handle \<times> WireSocketImpl) list" where
  "erase h [] = []"
| "erase h (x # xs) = (if fst x = h then xs else x # erase h xs)"

definition handles :: "wire \<Rightarrow> handle list" where
  "handles st = map fst (socks st)"

definition log :: "event \<Rightarrow> wire \<Rightarrow> wire" where
  "log e st = st\<lparr>trace := trace st @ [e]\<rparr>"

subsection \<open>Handler invocation and \<open>try { ... } catch ( ... ) {}\<close>\<close>

text \<open>
  A handler call yields the state it leaves and the exception in flight, if it threw.
  Every call in the source stands in a \<open>try\<close> block whose handler \<open>catch ( ... ) {}\<close>
  is empty: the exception is dropped and execution goes on after the block.
\<close>

definition invoke :: "hcall \<Rightarrow> bool \<Rightarrow> wire \<Rightarrow> wire \<times> exn option" where
  "invoke c r st = (log (Call c) st, if r then Some (HandlerExn c) else None)"

definition catch_all :: "wire \<times> exn option \<Rightarrow> wire" where
  "catch_all r = (case r of (st, None) \<Rightarrow> st | (st, Some x) \<Rightarrow> st)"

subsection \<open>Constructor, \<open>count\<close>, \<open>maxCount\<close>\<close>


definition count :: "wire \<Rightarrow> nat" where
  "count st = length (socks st)"

definition maxCount :: "nat \<Rightarrow> nat" where
  "maxCount M = M"

subsection \<open>\<open>close\<close>\<close>

definition call_connect :: "handlers \<Rightarrow> nat \<Rightarrow> handle \<Rightarrow> bool \<Rightarrow> wire \<Rightarrow> wire \<times> exn option" where
  "call_connect H j h success st =
     (let u = uptr (snd (socks st ! j));
          r = tcpConnectHandler H h u success
      in invoke (OnTcpConnect h u success) (raised r)
           (st\<lparr>socks := upd_at j (\<lambda>e. e\<lparr>uptr := uptr_out r\<rparr>) (socks st)\<rparr>))"

definition call_close :: "handlers \<Rightarrow> nat \<Rightarrow> handle \<Rightarrow> wire \<Rightarrow> wire \<times> exn option" where
  "call_close H j h st =
     (let u = uptr (snd (socks st ! j));
          r = tcpCloseHandler H h u
      in invoke (OnTcpClose h u) (raised r)
           (st\<lparr>socks := upd_at j (\<lambda>e. e\<lparr>uptr := uptr_out r\<rparr>) (socks st)\<rparr>))"

text \<open>The recomputation of \<open>_nfds\<close>: it runs before the entry is erased, over all entries.\<close>

definition recompute_nfds :: "wire \<Rightarrow> int" where
  "recompute_nfds st =
     foldl (\<lambda>n x. if sock (snd x) > n then sock (snd x) else n)
       (if whackReceiveSocket st > whackSendSocket st
        then whackReceiveSocket st else whackSendSocket st)
       (socks st)"

text \<open>
  \<open>close\<close> dereferences its argument once it is known to be non-null: a pointer that is
  the address of no live node is undefined behaviour.
\<close>

definition close :: "handlers \<Rightarrow> wire \<Rightarrow> handle \<Rightarrow> bool \<Rightarrow> wire outcome" where
  "close H st sock_p callHandlers =
     (if sock_p = 0 then Done st
      else case idx_of sock_p (socks st) of
        None \<Rightarrow> Undefined st
      | Some j \<Rightarrow>
          let sws = snd (socks st ! j);
              st1 = st\<lparr>readfds := readfds st - {sock sws},
                       writefds := writefds st - {sock sws},
                       exceptfds := exceptfds st - {sock sws}\<rparr>;
              st2 = log (Sys (SysClose (sock sws))) st1;
              st3 = (case type sws of
                       ZT_WIRE_SOCKET_TCP_OUT_PENDING \<Rightarrow>
                         if callHandlers then catch_all (call_connect H j sock_p False st2) else st2
                     | ZT_WIRE_SOCKET_TCP_OUT_CONNECTED \<Rightarrow>
                         if callHandlers then catch_all (call_close H j sock_p st2) else st2
                     | ZT_WIRE_SOCKET_TCP_IN \<Rightarrow>
                         if callHandlers then catch_all (call_close H j sock_p st2) else st2
                     | _ \<Rightarrow> st2);
              st4 = (if sock sws \<ge> nfds st3 then st3\<lparr>nfds := recompute_nfds st3\<rparr> else st3)
          in Done (st4\<lparr>socks := erase sock_p (socks st4)\<rparr>))"

subsection \<open>\<open>udpBind\<close>\<close>

text \<open>
  The two loops that size the buffers: the values passed to \<open>setsockopt\<close>, in order, given
  which values the system accepts.
\<close>

function buf_tries :: "(int \<Rightarrow> bool) \<Rightarrow> int \<Rightarrow> int list" where
  "buf_tries ok bs =
     (if bs \<ge> 65536 then (if ok bs then [bs] else bs # buf_tries ok (bs - 16384)) else [])"
  by pat_completeness auto
termination
  by (relation "measure (\<lambda>(ok, bs). nat bs)") auto

definition logs :: "event list \<Rightarrow> wire \<Rightarrow> wire" where
  "logs es st = st\<lparr>trace := trace st @ es\<rparr>"

definition udp_flags :: "fd \<Rightarrow> family \<Rightarrow> event list" where
  "udp_flags s fam =
     (if fam = AF_INET6 then [Sys (SysSetsockopt s IPV6_V6ONLY 1)] else [])
     @ [Sys (SysSetsockopt s SO_REUSEADDR 0), Sys (SysSetsockopt s SO_BROADCAST 1)]"

text \<open>
  The \<open>setsockopt\<close> calls between \<open>socket\<close> and \<open>bind\<close>: the two buffer loops when a
  size was asked for, then the options of the address family. Their results are not
  read, and the options that depend on platform macros are left out of the trace.
\<close>

definition udp_options :: "os \<Rightarrow> fd \<Rightarrow> sockaddr \<Rightarrow> int \<Rightarrow> wire \<Rightarrow> wire" where
  "udp_options os s localAddress bufferSize st =
     logs (udp_flags s (sa_family localAddress))
       (if bufferSize > 0
        then logs (map (\<lambda>v. Sys (SysSetsockopt s SO_RCVBUF v))
                     (buf_tries (setsockopt_ok os SO_RCVBUF) bufferSize)
                   @ map (\<lambda>v. Sys (SysSetsockopt s SO_SNDBUF v))
                     (buf_tries (setsockopt_ok os SO_SNDBUF) bufferSize)) st
        else st)"

text \<open>The entry \<open>push_back\<close> appends at the address \<open>a\<close>, with the four fields assigned.\<close>

definition push_udp :: "handle \<Rightarrow> fd \<Rightarrow> uptr \<Rightarrow> sockaddr \<Rightarrow> wire \<Rightarrow> wire" where
  "push_udp a s up localAddress st =
     st\<lparr>socks := socks st @
           [(a, \<lparr>type = ZT_WIRE_SOCKET_UDP, sock = s, uptr = up, saddr = localAddress\<rparr>)],
        nfds := (if s > nfds st then s else nfds st),
        readfds := insert s (readfds st)\<rparr>"

definition udpBind :: "nat \<Rightarrow> os \<Rightarrow> wire \<Rightarrow> sockaddr \<Rightarrow> uptr \<Rightarrow> int \<Rightarrow> handle \<times> wire" where
  "udpBind M os st localAddress up bufferSize =
     (if length (socks st) \<ge> M then (0, st)
      else
        let s = socket_r os;
            st1 = log (Sys (SysSocket (sa_family localAddress) s)) st
        in if \<not> ZT_WIRE_SOCKFD_VALID s then (0, st1)
        else
          let st2 = udp_options os s localAddress bufferSize st1;
              st3 = log (Sys (SysBind s localAddress)) st2
          in if \<not> bind_ok os then (0, log (Sys (SysClose s)) st3)
          else
            let st4 = log (Sys (SysNonBlock s)) st3
            in case new_node os (handles st4) of
                 None \<Rightarrow> (0, log (Sys (SysClose s)) st4)
               | Some a \<Rightarrow> (a, push_udp a s up localAddress st4))"

subsection \<open>\<open>udpSend\<close>, \<open>tcpSend\<close>, \<open>tcpSetNotifyWritable\<close>\<close>

text \<open>
  These dereference the handle without a check: \<open>None\<close> when it is the address of no
  live node. \<open>len\<close> is an \<open>unsigned long\<close>; \<open>(long)len\<close> is \<open>sint len\<close>.
\<close>

definition udpSend ::
    "os \<Rightarrow> wire \<Rightarrow> handle \<Rightarrow> sockaddr \<Rightarrow> nat \<Rightarrow> bytes \<Rightarrow> 64 word \<Rightarrow> (bool \<times> wire) option" where
  "udpSend os st sock_p addr addrlen data len =
     (case idx_of sock_p (socks st) of
        None \<Rightarrow> None
      | Some j \<Rightarrow>
          Some (sint (sendto_r os) = sint len,
                log (Sys (SysSendto (sock (snd (socks st ! j))) addr len)) st))"

definition tcpSend ::
    "os \<Rightarrow> wire \<Rightarrow> handle \<Rightarrow> bytes \<Rightarrow> 64 word \<Rightarrow> (64 word \<times> wire) option" where
  "tcpSend os st sock_p data len =
     (case idx_of sock_p (socks st) of
        None \<Rightarrow> None
      | Some j \<Rightarrow>
          let n = send_r os
          in Some (if sint n > 0 then n else 0,
                   log (Sys (SysSend (sock (snd (socks st ! j))) len)) st))"

definition tcpSetNotifyWritable :: "wire \<Rightarrow> handle \<Rightarrow> bool \<Rightarrow> wire option" where
  "tcpSetNotifyWritable st sock_p notifyWritable =
     (case idx_of sock_p (socks st) of
        None \<Rightarrow> None
      | Some j \<Rightarrow>
          let s = sock (snd (socks st ! j))
          in Some (if notifyWritable then st\<lparr>writefds := insert s (writefds st)\<rparr>
                   else st\<lparr>writefds := writefds st - {s}\<rparr>))"

subsection \<open>\<open>tcpListen\<close>, \<open>tcpConnect\<close>\<close>

text \<open>
  Both bodies consist of the capacity check only. Below capacity control reaches the end
  of the function with no \<open>return\<close> statement: the result is \<open>None\<close>, and no statement
  has touched the state.
\<close>

definition tcpListen :: "nat \<Rightarrow> wire \<Rightarrow> sockaddr \<Rightarrow> uptr \<Rightarrow> handle option \<times> wire" where
  "tcpListen M st localAddress up =
     (if length (socks st) \<ge> M then (Some 0, st) else (None, st))"

definition tcpConnect :: "nat \<Rightarrow> wire \<Rightarrow> sockaddr \<Rightarrow> uptr \<Rightarrow> handle option \<times> wire" where
  "tcpConnect M st remoteAddress up =
     (if length (socks st) \<ge> M then (Some 0, st) else (None, st))"

subsection \<open>\<open>poll\<close>\<close>















text \<open>
  The same pass, position by position. \<open>rfds_of\<close>, \<open>wfds_of\<close> and \<open>efds_of\<close> are the
  three snapshots as \<open>select\<close> leaves them, \<open>poll_start\<close> is the state in which the loop
  begins, and \<open>poll_pass\<close> is the state in which the loop of \<open>poll\<close> arrives at position
  \<open>i\<close>, when the entries before it have been passed with the iterator still valid.
\<close>

definition rfds_of :: "os \<Rightarrow> wire \<Rightarrow> fd set" where
  "rfds_of os st = readfds st \<inter> select_r os"



definition poll_start :: "os \<Rightarrow> wire \<Rightarrow> nat \<Rightarrow> wire" where
  "poll_start os st timeout =
     (let tv = (timeout div 1000, (timeout mod 1000) * 1000);
          st1 = log (Sys (SysSelect (nfds st + 1) (if timeout > 0 then Some tv else None))) st
      in if whackReceiveSocket st1 \<in> rfds_of os st
         then log (Sys (SysRead (whackReceiveSocket st1))) st1 else st1)"



subsection \<open>Sequences of operations\<close>






text \<open>An allocator that hands out the lowest free address, as a free list does.\<close>

definition first_fit :: "handle list \<Rightarrow> handle option" where
  "first_fit live = Some (hd (filter (\<lambda>a. a \<notin> set live) [1 ..< length live + 2]))"

text \<open>The handlers with every exception removed.\<close>

definition quiet :: "handlers \<Rightarrow> handlers" where
  "quiet H =
     \<lparr>dgHandler = (\<lambda>h u a b n. (dgHandler H h u a b n)\<lparr>raised := False\<rparr>),
      tcpConnectHandler = (\<lambda>h u b. (tcpConnectHandler H h u b)\<lparr>raised := False\<rparr>),
      tcpAcceptHandler = (\<lambda>h k u v a. (tcpAcceptHandler H h k u v a)\<lparr>raised2 := False\<rparr>),
      tcpCloseHandler = (\<lambda>h u. (tcpCloseHandler H h u)\<lparr>raised := False\<rparr>),
      tcpDataHandler = (\<lambda>h u b n. (tcpDataHandler H h u b n)\<lparr>raised := False\<rparr>),
      tcpWritableHandler = (\<lambda>h u. (tcpWritableHandler H h u)\<lparr>raised := False\<rparr>)\<rparr>"

subsection \<open>Measures and relations used in the proofs\<close>

definition is_listen :: "handle \<times> WireSocketImpl \<Rightarrow> bool" where
  "is_listen x = (type (snd x) = ZT_WIRE_SOCKET_TCP_LISTEN)"



definition pushed :: "nat \<Rightarrow> wire \<Rightarrow> wire \<Rightarrow> bool" where
  "pushed i st st' \<longleftrightarrow>
     length (socks st') = Suc (length (socks st)) \<and>
     (\<exists>x. \<not> is_listen x \<and> drop (Suc i) (socks st') = drop (Suc i) (socks st) @ [x])"

text \<open>The table is well formed: the addresses of its nodes are distinct and not null.\<close>

definition wf_table :: "wire \<Rightarrow> bool" where
  "wf_table st \<longleftrightarrow> distinct (handles st) \<and> 0 \<notin> set (handles st)"

subsection \<open>Concrete inputs\<close>

text \<open>
  An address, handlers that return and handlers that throw, a system whose calls succeed,
  the object as the constructor leaves it for the pipe \<open>(3, 4)\<close>, and tables holding one
  socket of a kind on descriptor \<open>5\<close> at address \<open>1\<close>.
\<close>

definition ex_addr :: sockaddr where
  "ex_addr = \<lparr>sa_family = AF_INET, sa_data = [127, 0, 0, 1, 35, 40]\<rparr>"

definition ex_peer :: sockaddr where
  "ex_peer = \<lparr>sa_family = AF_INET, sa_data = [127, 0, 0, 1, 200, 1]\<rparr>"

definition ex_handlers :: handlers where
  "ex_handlers =
     \<lparr>dgHandler = (\<lambda>h u a b n. \<lparr>raised = False, uptr_out = u\<rparr>),
      tcpConnectHandler = (\<lambda>h u b. \<lparr>raised = False, uptr_out = u\<rparr>),
      tcpAcceptHandler = (\<lambda>h k u v a. \<lparr>raised2 = False, uptrL_out = u, uptrN_out = v\<rparr>),
      tcpCloseHandler = (\<lambda>h u. \<lparr>raised = False, uptr_out = u\<rparr>),
      tcpDataHandler = (\<lambda>h u b n. \<lparr>raised = False, uptr_out = u\<rparr>),
      tcpWritableHandler = (\<lambda>h u. \<lparr>raised = False, uptr_out = u\<rparr>)\<rparr>"

definition ex_throwing :: handlers where
  "ex_throwing =
     \<lparr>dgHandler = (\<lambda>h u a b n. \<lparr>raised = True, uptr_out = u\<rparr>),
      tcpConnectHandler = (\<lambda>h u b. \<lparr>raised = True, uptr_out = u\<rparr>),
      tcpAcceptHandler = (\<lambda>h k u v a. \<lparr>raised2 = True, uptrL_out = u, uptrN_out = v\<rparr>),
      tcpCloseHandler = (\<lambda>h u. \<lparr>raised = True, uptr_out = u\<rparr>),
      tcpDataHandler = (\<lambda>h u b n. \<lparr>raised = True, uptr_out = u\<rparr>),
      tcpWritableHandler = (\<lambda>h u. \<lparr>raised = True, uptr_out = u\<rparr>)\<rparr>"

definition ex_os :: os where
  "ex_os =
     \<lparr>socket_r = 5, setsockopt_ok = (\<lambda>opt v. True), bind_ok = True,
      new_node = first_fit, sendto_r = 4, send_r = 4,
      select_r = {5}, select_w = {5}, select_e = {},
      getpeername_ok = (\<lambda>s. True), recv_r = (\<lambda>s. (4, [80, 73, 78, 71])),
      accept_r = (\<lambda>s. (6, ex_peer)), recvfrom_r = (\<lambda>s. (4, ex_peer, [80, 73, 78, 71])),
      iter_fd = (\<lambda>h. int h)\<rparr>"

definition ex_wire :: wire where
  "ex_wire =
     \<lparr>socks = [], readfds = {}, writefds = {}, exceptfds = {}, nfds = 4,
      whackReceiveSocket = 3, whackSendSocket = 4, noDelay = True, trace = []\<rparr>"

definition ex_table :: "WireSocketType \<Rightarrow> wire" where
  "ex_table t =
     \<lparr>socks = [(1, \<lparr>type = t, sock = 5, uptr = 7, saddr = ex_addr\<rparr>)],
      readfds = (if t = ZT_WIRE_SOCKET_TCP_OUT_PENDING then {} else {5}),
      writefds = (if t = ZT_WIRE_SOCKET_TCP_OUT_PENDING then {5} else {}),
      exceptfds = (if t = ZT_WIRE_SOCKET_TCP_OUT_PENDING then {5} else {}),
      nfds = 5, whackReceiveSocket = 3, whackSendSocket = 4, noDelay = True, trace = []\<rparr>"


text \<open>
  Bind a socket, close it with the handlers on, bind another socket to another address:
  the two handles returned.
\<close>

definition bind_close_bind ::
    "nat \<Rightarrow> handlers \<Rightarrow> os \<Rightarrow> os \<Rightarrow> wire \<Rightarrow> (handle \<times> handle) option" where
  "bind_close_bind M H os1 os2 st =
     (case udpBind M os1 st ex_addr 7 0 of
        (h1, st1) \<Rightarrow>
          (case close H st1 h1 True of
             Done st2 \<Rightarrow> (case udpBind M os2 st2 ex_peer 8 0 of (h2, st3) \<Rightarrow> Some (h1, h2))
           | _ \<Rightarrow> None))"




section \<open>Termination of the pass\<close>

lemma length_upd_at [simp]: "length (upd_at i f xs) = length xs"
  by (simp add: upd_at_def)

lemma drop_upd_at [simp]: "drop (Suc i) (upd_at i f xs) = drop (Suc i) xs"
  by (simp add: upd_at_def)

lemma map_fst_upd_at [simp]: "map fst (upd_at i f xs) = map fst xs"
  by (simp add: upd_at_def map_update list_update_same_conv)

lemma socks_log [simp]: "socks (log e st) = socks st"
  by (simp add: log_def)

lemma socks_catch_invoke [simp]: "socks (catch_all (invoke c r st)) = socks st"
  by (simp add: catch_all_def invoke_def)









lemma pushed_log [simp]: "pushed i (log e st) st' = pushed i st st'"
  by (simp add: pushed_def)






section \<open>The list of sockets\<close>

lemma idx_of_SomeD:
  "idx_of h xs = Some j \<Longrightarrow> j < length xs \<and> fst (xs ! j) = h"
  by (induction xs arbitrary: j) (auto split: if_splits)

lemma erase_idx:
  "idx_of h xs = Some j \<Longrightarrow> erase h xs = take j xs @ drop (Suc j) xs"
  by (induction xs arbitrary: j) (auto split: if_splits)

lemma idx_of_update:
  "i < length xs \<Longrightarrow> idx_of h (xs[i := (fst (xs ! i), e)]) = idx_of h xs"
proof (induction xs arbitrary: i)
  case Nil
  then show ?case by simp
next
  case (Cons x xs)
  then show ?case by (cases i) simp_all
qed

lemma idx_of_upd_at [simp]: "idx_of h (upd_at i f xs) = idx_of h xs"
  by (simp add: upd_at_def idx_of_update)

lemma take_upd_at [simp]: "take i (upd_at i f xs) = take i xs"
  by (simp add: upd_at_def)


lemma distinct_without_nth:
  assumes "distinct (map fst xs)" "j < length xs"
  shows "fst (xs ! j) \<notin> set (map fst (take j xs @ drop (Suc j) xs))"
proof -
  have "map fst xs = map fst (take j xs) @ fst (xs ! j) # map fst (drop (Suc j) xs)"
    using assms(2) by (metis id_take_nth_drop list.simps(9) map_append)
  with assms(1) have "distinct (map fst (take j xs) @ fst (xs ! j) # map fst (drop (Suc j) xs))"
    by simp
  then show ?thesis by auto
qed

section \<open>Fields after a guarded handler call\<close>

lemma log_fields [simp]:
  "trace (log e st) = trace st @ [e]"
  "readfds (log e st) = readfds st"
  "writefds (log e st) = writefds st"
  "exceptfds (log e st) = exceptfds st"
  "nfds (log e st) = nfds st"
  by (simp_all add: log_def)

lemma socks_call_connect [simp]:
  "socks (catch_all (call_connect H j h b st)) =
     upd_at j (\<lambda>e. e\<lparr>uptr := uptr_out (tcpConnectHandler H h (uptr (snd (socks st ! j))) b)\<rparr>)
       (socks st)"
  by (simp add: call_connect_def Let_def)

lemma socks_call_close [simp]:
  "socks (catch_all (call_close H j h st)) =
     upd_at j (\<lambda>e. e\<lparr>uptr := uptr_out (tcpCloseHandler H h (uptr (snd (socks st ! j))))\<rparr>)
       (socks st)"
  by (simp add: call_close_def Let_def)

lemma trace_call_connect [simp]:
  "trace (catch_all (call_connect H j h b st)) =
     trace st @ [Call (OnTcpConnect h (uptr (snd (socks st ! j))) b)]"
  by (simp add: call_connect_def Let_def catch_all_def invoke_def log_def)

lemma trace_call_close [simp]:
  "trace (catch_all (call_close H j h st)) =
     trace st @ [Call (OnTcpClose h (uptr (snd (socks st ! j))))]"
  by (simp add: call_close_def Let_def catch_all_def invoke_def log_def)

lemma fds_call_connect [simp]:
  "readfds (catch_all (call_connect H j h b st)) = readfds st"
  "writefds (catch_all (call_connect H j h b st)) = writefds st"
  "exceptfds (catch_all (call_connect H j h b st)) = exceptfds st"
  "nfds (catch_all (call_connect H j h b st)) = nfds st"
  by (simp_all add: call_connect_def Let_def catch_all_def invoke_def log_def)

lemma fds_call_close [simp]:
  "readfds (catch_all (call_close H j h st)) = readfds st"
  "writefds (catch_all (call_close H j h st)) = writefds st"
  "exceptfds (catch_all (call_close H j h st)) = exceptfds st"
  "nfds (catch_all (call_close H j h st)) = nfds st"
  by (simp_all add: call_close_def Let_def catch_all_def invoke_def log_def)

section \<open>\<open>close\<close>\<close>

lemma live_close_fields:
  assumes "idx_of h (socks st) = Some j" and "h \<noteq> 0"
  shows "\<exists>st'. close H st h callHandlers = Done st' \<and>
     trace st' = trace st @ Sys (SysClose (sock (snd (socks st ! j)))) # map Call
        (if callHandlers then
          (case type (snd (socks st ! j)) of
             ZT_WIRE_SOCKET_TCP_OUT_PENDING \<Rightarrow>
               [OnTcpConnect h (uptr (snd (socks st ! j))) False]
           | ZT_WIRE_SOCKET_TCP_OUT_CONNECTED \<Rightarrow> [OnTcpClose h (uptr (snd (socks st ! j)))]
           | ZT_WIRE_SOCKET_TCP_IN \<Rightarrow> [OnTcpClose h (uptr (snd (socks st ! j)))]
           | _ \<Rightarrow> [])
         else []) \<and>
     readfds st' = readfds st - {sock (snd (socks st ! j))} \<and>
     writefds st' = writefds st - {sock (snd (socks st ! j))} \<and>
     exceptfds st' = exceptfds st - {sock (snd (socks st ! j))} \<and>
     socks st' = take j (socks st) @ drop (Suc j) (socks st)"
  using assms
  by (cases "type (snd (socks st ! j))")
     (simp_all add: close_def Let_def erase_idx)

text \<open>
  C2. For a live socket (the handle is the address of the entry at position \<open>j\<close>),
  \<open>close\<close> ends normally; it removes the descriptor from \<open>_readfds\<close>, \<open>_writefds\<close> and
  \<open>_exceptfds\<close>, closes the descriptor, and then calls exactly the handlers listed: none
  when \<open>callHandlers\<close> is false; otherwise the connect handler with \<open>success = false\<close> for
  \<open>TCP_OUT_PENDING\<close>, the close handler for \<open>TCP_OUT_CONNECTED\<close> and \<open>TCP_IN\<close>, and none
  for \<open>TCP_LISTEN\<close>, \<open>UDP\<close> and \<open>RAW\<close>. The entry is removed from the table, the other
  entries stay, and in a table of distinct addresses the handle names no entry afterwards.
\<close>

theorem close_live:
  assumes "idx_of h (socks st) = Some j" and "h \<noteq> 0"
  shows "\<exists>st'. close H st h callHandlers = Done st' \<and>
     trace st' = trace st @ Sys (SysClose (sock (snd (socks st ! j)))) # map Call
        (if callHandlers then
          (case type (snd (socks st ! j)) of
             ZT_WIRE_SOCKET_TCP_OUT_PENDING \<Rightarrow>
               [OnTcpConnect h (uptr (snd (socks st ! j))) False]
           | ZT_WIRE_SOCKET_TCP_OUT_CONNECTED \<Rightarrow> [OnTcpClose h (uptr (snd (socks st ! j)))]
           | ZT_WIRE_SOCKET_TCP_IN \<Rightarrow> [OnTcpClose h (uptr (snd (socks st ! j)))]
           | _ \<Rightarrow> [])
         else []) \<and>
     readfds st' = readfds st - {sock (snd (socks st ! j))} \<and>
     writefds st' = writefds st - {sock (snd (socks st ! j))} \<and>
     exceptfds st' = exceptfds st - {sock (snd (socks st ! j))} \<and>
     socks st' = take j (socks st) @ drop (Suc j) (socks st) \<and>
     count st' = count st - 1 \<and>
     (distinct (handles st) \<longrightarrow> h \<notin> set (handles st'))"
proof -
  from live_close_fields [OF assms, of H callHandlers] obtain st' where
      c: "close H st h callHandlers = Done st'"
      and t: "trace st' = trace st @ Sys (SysClose (sock (snd (socks st ! j)))) # map Call
        (if callHandlers then
          (case type (snd (socks st ! j)) of
             ZT_WIRE_SOCKET_TCP_OUT_PENDING \<Rightarrow>
               [OnTcpConnect h (uptr (snd (socks st ! j))) False]
           | ZT_WIRE_SOCKET_TCP_OUT_CONNECTED \<Rightarrow> [OnTcpClose h (uptr (snd (socks st ! j)))]
           | ZT_WIRE_SOCKET_TCP_IN \<Rightarrow> [OnTcpClose h (uptr (snd (socks st ! j)))]
           | _ \<Rightarrow> [])
         else [])"
      and f: "readfds st' = readfds st - {sock (snd (socks st ! j))}"
        "writefds st' = writefds st - {sock (snd (socks st ! j))}"
        "exceptfds st' = exceptfds st - {sock (snd (socks st ! j))}"
      and s: "socks st' = take j (socks st) @ drop (Suc j) (socks st)"
    by blast
  from idx_of_SomeD [OF assms(1)] have j: "j < length (socks st)" "fst (socks st ! j) = h"
    by simp_all
  have "count st' = count st - 1"
    using j(1) by (simp add: count_def s)
  moreover have "distinct (handles st) \<longrightarrow> h \<notin> set (handles st')"
    using distinct_without_nth [of "socks st" j] j by (simp add: handles_def s)
  ultimately show ?thesis
    using c t f s by blast
qed

theorem close_live_witness:
  "idx_of 1 (socks (ex_table ZT_WIRE_SOCKET_TCP_OUT_PENDING)) = Some 0 \<and> (1::nat) \<noteq> 0 \<and>
   distinct (handles (ex_table ZT_WIRE_SOCKET_TCP_OUT_PENDING)) \<and>
   (\<exists>st'. close ex_throwing (ex_table ZT_WIRE_SOCKET_TCP_OUT_PENDING) 1 True = Done st' \<and>
      trace st' = [Sys (SysClose 5), Call (OnTcpConnect 1 7 False)] \<and>
      readfds st' = {} \<and> writefds st' = {} \<and> exceptfds st' = {} \<and> socks st' = [] \<and>
      count st' = 0 \<and> 1 \<notin> set (handles st'))"
proof -
  have h: "idx_of 1 (socks (ex_table ZT_WIRE_SOCKET_TCP_OUT_PENDING)) = Some 0"
    by (simp add: ex_table_def)
  have n: "(1::nat) \<noteq> 0"
    by simp
  have d: "distinct (handles (ex_table ZT_WIRE_SOCKET_TCP_OUT_PENDING))"
    by (simp add: ex_table_def handles_def)
  from close_live [OF h n, of ex_throwing True] d h show ?thesis
    by (simp add: ex_table_def count_def)
qed

text \<open>
  C10. \<open>close\<close> with the null handle returns at once, whatever the flag: the state,
  which holds the table, the three sets and the trace of system and handler calls, is the
  one it was given.
\<close>

theorem close_null: "close H st 0 callHandlers = Done st"
  by (simp add: close_def)

section \<open>Sending\<close>

lemma uint_of_positive:
  fixes n :: "64 word"
  assumes "0 < sint n"
  shows "uint n = sint n"
proof -
  have "sint n < 2 ^ 64"
    using sint_lt [of n] by simp
  then have "take_bit 64 (sint n) = sint n"
    using assms by (simp add: take_bit_int_eq_self)
  then show ?thesis
    by (simp add: uint_sint)
qed

text \<open>
  C8. For a live socket, \<open>tcpSend\<close> makes one \<open>send\<close> call on the socket's descriptor
  and changes nothing else in the state (no retry, no buffer). It returns the number of
  bytes \<open>send\<close> accepted when that is positive, which may be fewer than \<open>len\<close>, and \<open>0\<close>
  when \<open>send\<close> fails or accepts nothing.
\<close>

theorem tcpSend_result:
  assumes "idx_of h (socks st) = Some j"
  shows "\<exists>r. tcpSend os st h data len =
            Some (r, log (Sys (SysSend (sock (snd (socks st ! j))) len)) st) \<and>
         uint r = (if 0 < sint (send_r os) then sint (send_r os) else 0)"
  using assms by (simp add: tcpSend_def Let_def uint_of_positive)

theorem tcpSend_result_witness:
  "idx_of 1 (socks (ex_table ZT_WIRE_SOCKET_TCP_IN)) = Some 0 \<and>
   (\<exists>r. tcpSend (ex_os\<lparr>send_r := 3\<rparr>) (ex_table ZT_WIRE_SOCKET_TCP_IN) 1 [1, 2, 3, 4, 5] 5 =
           Some (r, log (Sys (SysSend 5 5)) (ex_table ZT_WIRE_SOCKET_TCP_IN)) \<and> uint r = 3)"
proof -
  have h: "idx_of 1 (socks (ex_table ZT_WIRE_SOCKET_TCP_IN)) = Some 0"
    by (simp add: ex_table_def)
  from tcpSend_result [OF h, of "ex_os\<lparr>send_r := 3\<rparr>" "[1, 2, 3, 4, 5]" 5] h show ?thesis
    by (simp add: ex_table_def)
qed

text \<open>
  C7. For a live socket and a payload of \<open>len\<close> bytes (an object in memory, so shorter
  than \<open>2^63\<close> bytes), \<open>udpSend\<close> makes one \<open>sendto\<close> call on the socket's descriptor
  and changes nothing else in the state (no retry, no buffer). It returns true exactly
  when the result of \<open>sendto\<close> is the length of the payload: it returns false when
  \<open>sendto\<close> accepts a part of the payload and when it fails.
\<close>

theorem udpSend_result:
  assumes "idx_of h (socks st) = Some j"
    and "uint len = int (length data)" and "length data < 2 ^ 63"
  shows "udpSend os st h addr addrlen data len =
     Some (sint (sendto_r os) = int (length data),
           log (Sys (SysSendto (sock (snd (socks st ! j))) addr len)) st)"
proof -
  have "- (2 ^ 63) \<le> (0::int)"
    by simp
  also have "0 \<le> uint len"
    by simp
  finally have "signed_take_bit 63 (uint len) = uint len"
  proof (rule signed_take_bit_int_eq_self)
    show "uint len < 2 ^ 63"
      using assms(2,3) by simp
  qed
  then have "sint len = int (length data)"
    using assms(2) by (simp add: sint_uint)
  then show ?thesis
    using assms(1) by (simp add: udpSend_def)
qed

theorem udpSend_result_witness:
  "idx_of 1 (socks (ex_table ZT_WIRE_SOCKET_UDP)) = Some 0 \<and>
   uint (4 :: 64 word) = int (length [80, 73, 78, 71 :: nat]) \<and>
   length [80, 73, 78, 71 :: nat] < 2 ^ 63 \<and>
   udpSend (ex_os\<lparr>sendto_r := 4\<rparr>) (ex_table ZT_WIRE_SOCKET_UDP) 1 ex_peer 16 [80, 73, 78, 71] 4
     = Some (True, log (Sys (SysSendto 5 ex_peer 4)) (ex_table ZT_WIRE_SOCKET_UDP)) \<and>
   udpSend (ex_os\<lparr>sendto_r := 3\<rparr>) (ex_table ZT_WIRE_SOCKET_UDP) 1 ex_peer 16 [80, 73, 78, 71] 4
     = Some (False, log (Sys (SysSendto 5 ex_peer 4)) (ex_table ZT_WIRE_SOCKET_UDP)) \<and>
   udpSend (ex_os\<lparr>sendto_r := - 1\<rparr>) (ex_table ZT_WIRE_SOCKET_UDP) 1 ex_peer 16 [80, 73, 78, 71] 4
     = Some (False, log (Sys (SysSendto 5 ex_peer 4)) (ex_table ZT_WIRE_SOCKET_UDP))"
proof -
  have h: "idx_of 1 (socks (ex_table ZT_WIRE_SOCKET_UDP)) = Some 0"
    by (simp add: ex_table_def)
  have u: "uint (4 :: 64 word) = int (length [80, 73, 78, 71 :: nat])"
    and b: "length [80, 73, 78, 71 :: nat] < 2 ^ 63"
    by simp_all
  have s: "sock (snd (socks (ex_table ZT_WIRE_SOCKET_UDP) ! 0)) = 5"
    by (simp add: ex_table_def)
  from udpSend_result [OF h u b, of "ex_os\<lparr>sendto_r := 4\<rparr>" ex_peer 16]
    udpSend_result [OF h u b, of "ex_os\<lparr>sendto_r := 3\<rparr>" ex_peer 16]
    udpSend_result [OF h u b, of "ex_os\<lparr>sendto_r := - 1\<rparr>" ex_peer 16]
    h u b
  show ?thesis
    by (simp add: s)
qed


text \<open>
  C6. With an empty table and a capacity of 1024, \<open>tcpListen\<close> and \<open>tcpConnect\<close> reach
  the end of their bodies: no socket is created, the table stays empty and no handle is
  returned. \<open>tcp_create_at_capacity\<close> is the half of the claim that holds.
\<close>

theorem tcp_create_below_capacity:
  "count ex_wire < maxCount 1024 \<and>
   tcpListen 1024 ex_wire ex_addr 7 = (None, ex_wire) \<and>
   tcpConnect 1024 ex_wire ex_peer 7 = (None, ex_wire) \<and>
   socks ex_wire = []"
  by (simp add: tcpListen_def tcpConnect_def ex_wire_def count_def maxCount_def)


section \<open>The step for a pending connection\<close>





lemma wf_table_log [simp]: "wf_table (log e st) = wf_table st"
  by (simp add: wf_table_def handles_def)




section \<open>The step for a listening socket\<close>





section \<open>Exceptions raised in handlers\<close>


lemma quiet_fields [simp]:
  "uptr_out (tcpConnectHandler (quiet H) h u b) = uptr_out (tcpConnectHandler H h u b)"
  "uptr_out (tcpCloseHandler (quiet H) h u) = uptr_out (tcpCloseHandler H h u)"
  "uptr_out (tcpDataHandler (quiet H) h u d n) = uptr_out (tcpDataHandler H h u d n)"
  "uptr_out (tcpWritableHandler (quiet H) h u) = uptr_out (tcpWritableHandler H h u)"
  "uptr_out (dgHandler (quiet H) h u a d n) = uptr_out (dgHandler H h u a d n)"
  "uptrL_out (tcpAcceptHandler (quiet H) h k u v a) = uptrL_out (tcpAcceptHandler H h k u v a)"
  "uptrN_out (tcpAcceptHandler (quiet H) h k u v a) = uptrN_out (tcpAcceptHandler H h k u v a)"
  by (simp_all add: quiet_def)













section \<open>Invariants of the table\<close>

lemma handles_log [simp]: "handles (log e st) = handles st"
  by (simp add: handles_def)

lemma handles_catch_invoke [simp]: "handles (catch_all (invoke c r st)) = handles st"
  by (simp add: handles_def)











lemma socks_udp_options [simp]: "socks (udp_options os s a b st) = socks st"
  by (simp add: udp_options_def logs_def)

lemma handles_udp_options [simp]: "handles (udp_options os s a b st) = handles st"
  by (simp add: handles_def)

lemma handles_push_udp [simp]: "handles (push_udp a s u l st) = handles st @ [a]"
  by (simp add: handles_def push_udp_def)











section \<open>The accept path in general\<close>

lemma noDelay_log [simp]: "noDelay (log e st) = noDelay st"
  by (simp add: log_def)





section \<open>Capacity and handles over sequences of calls\<close>




lemma handles_logs [simp]: "handles (logs es st) = handles st"
  by (simp add: handles_def logs_def)

lemma socks_logs [simp]: "socks (logs es st) = socks st"
  by (simp add: logs_def)

lemma ex_bind:
  assumes "length (socks st) < M" "s > - 1"
  shows "udpBind M (ex_os\<lparr>socket_r := s\<rparr>) st a u 0 =
     (case first_fit (handles st) of
        None \<Rightarrow> (0, log (Sys (SysClose s)) (log (Sys (SysNonBlock s)) (log (Sys (SysBind s a))
              (logs (udp_flags s (sa_family a)) (log (Sys (SysSocket (sa_family a) s)) st)))))
      | Some h \<Rightarrow>
        (h, push_udp h s u a (log (Sys (SysNonBlock s)) (log (Sys (SysBind s a))
              (logs (udp_flags s (sa_family a)) (log (Sys (SysSocket (sa_family a) s)) st))))))"
  using assms
  by (simp add: udpBind_def ex_os_def Let_def ZT_WIRE_SOCKFD_VALID_def udp_options_def
      cong: option.case_cong)

lemma first_fit_values:
  "first_fit [] = Some 1" "first_fit [1] = Some 2" "first_fit [Suc 0] = Some 2"
  by (simp_all add: first_fit_def)


lemma socks_push_udp [simp]:
  "socks (push_udp h s u a st) =
     socks st @ [(h, \<lparr>type = ZT_WIRE_SOCKET_UDP, sock = s, uptr = u, saddr = a\<rparr>)]"
  by (simp add: push_udp_def)

lemma ex_wire_facts: "socks ex_wire = []" "handles ex_wire = []"
  by (simp_all add: ex_wire_def handles_def)



text \<open>
  C5. With an allocator that hands out the lowest free address, the socket bound after
  the first one was closed gets the handle the first one had: both calls return the
  handle \<open>1\<close>, for two sockets with different descriptors, addresses and user pointers.
\<close>

theorem handle_reissued:
  "bind_close_bind 1024 ex_handlers (ex_os\<lparr>socket_r := 5\<rparr>) (ex_os\<lparr>socket_r := 6\<rparr>) ex_wire
     = Some (1, 1)"
  by (simp add: bind_close_bind_def ex_bind ex_wire_facts first_fit_values close_def Let_def
      handles_def)





section \<open>Pending connections in a pass of \<open>poll\<close>\<close>






lemma handles_poll_start [simp]: "handles (poll_start os st t) = handles st"
  by (simp add: poll_start_def Let_def)















end
